theory Spec2Isabelle
  imports Complex_Main
begin

section \<open>Values\<close>

text \<open>
  A Python float is a finite real, an infinity or NaN. Python integers that reach the
  comparisons of this program are covered by \<open>Finite\<close>. The bounds the program compares
  with are small integers, so a comparison of a finite float with a bound is the
  comparison of the reals.
\<close>

datatype pyfloat = Finite real | PosInf | NegInf | NaN

text \<open>The comparison \<open>a <= b\<close> of two floats: false as soon as one side is NaN.\<close>

fun fle :: "pyfloat \<Rightarrow> pyfloat \<Rightarrow> bool" where
  "fle NaN _ = False"
| "fle _ NaN = False"
| "fle NegInf _ = True"
| "fle _ PosInf = True"
| "fle (Finite a) (Finite b) = (a \<le> b)"
| "fle (Finite _) NegInf = False"
| "fle PosInf (Finite _) = False"
| "fle PosInf NegInf = False"

text \<open>\<open>a >= b\<close> is \<open>b <= a\<close> with the operands as written.\<close>

definition fge :: "pyfloat \<Rightarrow> pyfloat \<Rightarrow> bool" where
  "fge a b = fle b a"

section \<open>Region classifier\<close>

text \<open>
  \<open>get_ocean_region(lat, lon, region_mapping)\<close>: the if/elif chain of the source, in its
  order. A chained comparison \<open>a <= x <= b\<close> is the conjunction of \<open>a <= x\<close> and
  \<open>x <= b\<close>. The mapping argument is never read by the body, so it is left out.
\<close>

definition get_ocean_region :: "pyfloat \<Rightarrow> pyfloat \<Rightarrow> string" where
  "get_ocean_region lat lon =
     (if (fle (Finite (- 30)) lat \<and> fle lat (Finite 60))
         \<and> (fle (Finite (- 180)) lon \<and> fle lon (Finite (- 30)))
      then ''Atlantic Ocean''
      else if (fle (Finite (- 30)) lat \<and> fle lat (Finite 60))
         \<and> (fle (Finite 30) lon \<and> fle lon (Finite 180))
      then ''Pacific Ocean''
      else if (fle (Finite (- 30)) lat \<and> fle lat (Finite 30))
         \<and> (fle (Finite 20) lon \<and> fle lon (Finite 120))
      then ''Indian Ocean''
      else if fge lat (Finite 60)
      then ''Arctic Ocean''
      else if fle lat (Finite (- 30))
      then ''Southern Ocean''
      else ''Unknown'')"

text \<open>
  The classifier in the words of the specification: an ordered list of named tests, the
  first test that holds gives the label, and \<open>Unknown\<close> is the label when none holds.
\<close>

definition in_box :: "real \<Rightarrow> real \<Rightarrow> real \<Rightarrow> real \<Rightarrow> pyfloat \<Rightarrow> pyfloat \<Rightarrow> bool" where
  "in_box lat_lo lat_hi lon_lo lon_hi lat lon =
     (fle (Finite lat_lo) lat \<and> fle lat (Finite lat_hi)
      \<and> fle (Finite lon_lo) lon \<and> fle lon (Finite lon_hi))"

definition region_tests :: "(string \<times> (pyfloat \<Rightarrow> pyfloat \<Rightarrow> bool)) list" where
  "region_tests =
     [(''Atlantic Ocean'', in_box (- 30) 60 (- 180) (- 30)),
      (''Pacific Ocean'', in_box (- 30) 60 30 180),
      (''Indian Ocean'', in_box (- 30) 30 20 120),
      (''Arctic Ocean'', \<lambda>lat lon. fle (Finite 60) lat),
      (''Southern Ocean'', \<lambda>lat lon. fle lat (Finite (- 30)))]"

fun first_match :: "(string \<times> (pyfloat \<Rightarrow> pyfloat \<Rightarrow> bool)) list \<Rightarrow> pyfloat \<Rightarrow> pyfloat \<Rightarrow> string" where
  "first_match [] lat lon = ''Unknown''"
| "first_match ((label, test) # rest) lat lon =
     (if test lat lon then label else first_match rest lat lon)"

definition region_labels :: "string set" where
  "region_labels = {''Atlantic Ocean'', ''Pacific Ocean'', ''Indian Ocean'',
                    ''Arctic Ocean'', ''Southern Ocean'', ''Unknown''}"

section \<open>Batches of rows\<close>

text \<open>
  A cell of a batch read from a CSV file: missing (None, NaN and NaT are the same for
  \<open>dropna\<close>), a number, a string, or a timestamp (what \<open>pd.to_datetime\<close> produces, as a
  count of time units since the epoch). A float NaN is a missing value too.
\<close>

datatype cell = Null | Num pyfloat | Str string | Ts int

fun isna :: "cell \<Rightarrow> bool" where
  "isna Null = True"
| "isna (Num NaN) = True"
| "isna _ = False"

text \<open>
  A DataFrame: its column labels, and its rows in order. A row gives the cell of every
  column of the frame; what it gives for a label that is not a column of the frame is
  never read (see \<open>row_get\<close>).
\<close>

type_synonym row = "string \<Rightarrow> cell"

record dataframe =
  df_columns :: "string list"
  df_rows :: "row list"

text \<open>The exceptions the program can meet, as values.\<close>

datatype error =
    KeyError string
  | TypeError
  | ValueError string
  | AttributeError string
  | CsvError string
  | OperationalError string
  | IntegrityError string
  | ProgrammingError string

text \<open>
  \<open>df.dropna(subset=cols)\<close>: KeyError when a label of the subset is not a column,
  otherwise the rows with no missing value in the subset.
\<close>

definition dropna :: "dataframe \<Rightarrow> string list \<Rightarrow> error + dataframe" where
  "dropna df cols =
     (case filter (\<lambda>c. c \<notin> set (df_columns df)) cols of
        c # _ \<Rightarrow> Inl (KeyError c)
      | [] \<Rightarrow> Inr (df\<lparr>df_rows := filter (\<lambda>r. list_all (\<lambda>c. \<not> isna (r c)) cols) (df_rows df)\<rparr>))"

text \<open>
  A cell as the operand of a numeric comparison: a number is itself, a missing value of
  a numeric column is NaN, and a string or a timestamp cannot be compared with an
  integer (TypeError).
\<close>

fun cell_float :: "cell \<Rightarrow> pyfloat option" where
  "cell_float (Num v) = Some v"
| "cell_float Null = Some NaN"
| "cell_float (Str _) = None"
| "cell_float (Ts _) = None"

text \<open>
  \<open>df[(df[col] >= lo) & (df[col] <= hi)]\<close>: both comparisons are made on the whole
  column before any row is selected, so one cell that cannot be compared raises.
\<close>

definition select_between :: "dataframe \<Rightarrow> string \<Rightarrow> real \<Rightarrow> real \<Rightarrow> error + dataframe" where
  "select_between df col lo hi =
     (if list_ex (\<lambda>r. cell_float (r col) = None) (df_rows df) then Inl TypeError
      else Inr (df\<lparr>df_rows :=
        filter (\<lambda>r. case cell_float (r col) of
                       None \<Rightarrow> False
                     | Some v \<Rightarrow> fge v (Finite lo) \<and> fle v (Finite hi)) (df_rows df)\<rparr>))"

text \<open>
  \<open>pd.to_datetime(column, errors='coerce')\<close> is the library's: the parser is a
  parameter. It sees the whole column (the library infers one format from the column)
  and the cell, and gives the timestamp, or None when the cell does not parse. A missing
  cell always becomes NaT, and with \<open>errors='coerce'\<close> so does a cell that does not
  parse.
\<close>

type_synonym parser = "cell list \<Rightarrow> cell \<Rightarrow> int option"

definition to_datetime :: "parser \<Rightarrow> cell list \<Rightarrow> cell \<Rightarrow> cell" where
  "to_datetime parse col c =
     (if isna c then Null
      else case parse col c of Some t \<Rightarrow> Ts t | None \<Rightarrow> Null)"

text \<open>
  \<open>df['measurement_date'] = pd.to_datetime(df['measurement_date'], errors='coerce')\<close>
  followed by \<open>df.dropna(subset=['measurement_date'])\<close>.
\<close>

definition convert_dates :: "parser \<Rightarrow> dataframe \<Rightarrow> dataframe" where
  "convert_dates parse df =
     (let col = map (\<lambda>r. r ''measurement_date'') (df_rows df);
          converted = map (\<lambda>r. r(''measurement_date'' := to_datetime parse col (r ''measurement_date'')))
                        (df_rows df)
      in df\<lparr>df_rows := filter (\<lambda>r. \<not> isna (r ''measurement_date'')) converted\<rparr>)"

text \<open>The first half of \<open>clean_data\<close>: the rules of the data kind.\<close>

definition drop_missing :: "dataframe \<Rightarrow> string \<Rightarrow> error + dataframe" where
  "drop_missing df data_type =
     (if data_type = ''floats'' then
        (case dropna df [''float_id'', ''latitude'', ''longitude''] of
           Inl e \<Rightarrow> Inl e
         | Inr df1 \<Rightarrow>
            (case select_between df1 ''latitude'' (- 90) 90 of
               Inl e \<Rightarrow> Inl e
             | Inr df2 \<Rightarrow> select_between df2 ''longitude'' (- 180) 180))
      else if data_type \<in> set [''temperature'', ''salinity'', ''oxygen''] then
        dropna df [''float_id'', ''measurement_date'']
      else Inr df)"

text \<open>\<open>clean_data(df, data_type)\<close>.\<close>

definition clean_data :: "parser \<Rightarrow> dataframe \<Rightarrow> string \<Rightarrow> error + dataframe" where
  "clean_data parse df data_type =
     (case drop_missing df data_type of
        Inl e \<Rightarrow> Inl e
      | Inr df1 \<Rightarrow>
          if ''measurement_date'' \<in> set (df_columns df1)
          then Inr (convert_dates parse df1)
          else Inr df1)"

section \<open>The store\<close>

text \<open>
  A table of the SQLite store: its declaration (column names, the columns declared
  NOT NULL, the columns under a UNIQUE constraint, the DEFAULT of each column, \<open>Null\<close>
  when it has none) and its rows in insertion order. The surrogate key \<open>id\<close>, which no
  statement of the program names and which is fresh at every insert, is left out, and
  so are column affinities and foreign keys.
\<close>

record table =
  tcols :: "string list"
  notnull :: "string list"
  uniq :: "string list"
  dflt :: "string \<Rightarrow> cell"
  trows :: "row list"

type_synonym db = "string \<Rightarrow> table option"

text \<open>
  The connection: the database as of the last commit, and the database as the open
  transaction sees it. The inserts work on the second; \<open>commit\<close> and \<open>rollback\<close> copy
  one onto the other.
\<close>

record conn =
  committed :: db
  working :: db

definition commit :: "conn \<Rightarrow> conn" where
  "commit c = c\<lparr>committed := working c\<rparr>"

definition rollback :: "conn \<Rightarrow> conn" where
  "rollback c = c\<lparr>working := committed c\<rparr>"

text \<open>
  Binding a Python value to a statement parameter: the value SQLite stores, or \<open>None\<close>
  when the driver has no way to bind the value. None and a float NaN are stored as NULL,
  a number and a string as they are. A timestamp of a frame is a \<open>pandas.Timestamp\<close>:
  the driver accepts \<open>datetime.datetime\<close> itself but finds adapters by the exact type of
  the value, so it does not accept this subclass. The program binds the cells of a row
  as \<open>iterrows\<close> gives them, with no conversion.
\<close>

fun bind_value :: "cell \<Rightarrow> cell option" where
  "bind_value (Ts t) = None"
| "bind_value (Num NaN) = Some Null"
| "bind_value c = Some c"

text \<open>
  The row an INSERT builds from the named columns and the values bound to them: a column
  that is not named gets its default; under OR REPLACE a NULL in a NOT NULL column is
  replaced by the column's default.
\<close>

definition new_row :: "bool \<Rightarrow> table \<Rightarrow> string list \<Rightarrow> cell list \<Rightarrow> row" where
  "new_row or_replace tb cols vals =
     (\<lambda>c. if c \<in> set (tcols tb) then
            (let v = (case map_of (zip cols vals) c of
                        Some x \<Rightarrow> x
                      | None \<Rightarrow> dflt tb c)
             in if v = Null \<and> or_replace \<and> c \<in> set (notnull tb) then dflt tb c else v)
          else Null)"

text \<open>Two rows collide when they agree on a UNIQUE column; a NULL collides with nothing.\<close>

definition conflicts :: "table \<Rightarrow> row \<Rightarrow> row \<Rightarrow> bool" where
  "conflicts tb old new = list_ex (\<lambda>c. new c \<noteq> Null \<and> old c = new c) (uniq tb)"

text \<open>
  One execution of \<open>INSERT [OR REPLACE] INTO t (cols) VALUES (?, ...)\<close> with one tuple
  of parameters. The parameters are bound first: a value that cannot be bound raises
  (ProgrammingError; InterfaceError before Python 3.11) and the statement does not run.
  A NULL left in a NOT NULL column aborts the statement. A collision aborts a plain
  INSERT; under OR REPLACE the rows that collide are deleted and the new row is inserted.
\<close>

definition insert_row :: "bool \<Rightarrow> string list \<Rightarrow> cell list \<Rightarrow> table \<Rightarrow> error + table" where
  "insert_row or_replace cols vals tb =
     (case those (map bind_value vals) of
        None \<Rightarrow> Inl (ProgrammingError ''Error binding parameter'')
      | Some bound \<Rightarrow>
          (let r = new_row or_replace tb cols bound in
           case filter (\<lambda>c. r c = Null) (notnull tb) of
             c # _ \<Rightarrow> Inl (IntegrityError c)
           | [] \<Rightarrow>
               if or_replace then
                 Inr (tb\<lparr>trows := filter (\<lambda>old. \<not> conflicts tb old r) (trows tb) @ [r]\<rparr>)
               else if list_ex (\<lambda>old. conflicts tb old r) (trows tb) then
                 Inl (IntegrityError ''UNIQUE'')
               else Inr (tb\<lparr>trows := trows tb @ [r]\<rparr>)))"

text \<open>
  The loop of \<open>executemany\<close> over the parameter tuples: the statement runs once per
  tuple, and the rows of the tuples before a failing one stay in the transaction.
\<close>

fun insert_rows :: "bool \<Rightarrow> string list \<Rightarrow> cell list list \<Rightarrow> table \<Rightarrow> table \<times> error option" where
  "insert_rows or_replace cols [] tb = (tb, None)"
| "insert_rows or_replace cols (vals # rest) tb =
     (case insert_row or_replace cols vals tb of
        Inl e \<Rightarrow> (tb, Some e)
      | Inr tb' \<Rightarrow> insert_rows or_replace cols rest tb')"

text \<open>
  \<open>conn.executemany(sql, data)\<close> for an INSERT. The statement is compiled before the
  first tuple is read: a table that does not exist, or a named column the table does
  not have, raises OperationalError even when \<open>data\<close> is empty.
\<close>

definition executemany :: "bool \<Rightarrow> string \<Rightarrow> string list \<Rightarrow> cell list list \<Rightarrow> db \<Rightarrow> db \<times> error option" where
  "executemany or_replace name cols data d =
     (case d name of
        None \<Rightarrow> (d, Some (OperationalError name))
      | Some tb \<Rightarrow>
          (case filter (\<lambda>c. c \<notin> set (tcols tb)) cols of
             c # _ \<Rightarrow> (d, Some (OperationalError c))
           | [] \<Rightarrow>
               (case insert_rows or_replace cols data tb of
                  (tb', e) \<Rightarrow> (d(name \<mapsto> tb'), e))))"

section \<open>Schema provisioning\<close>

text \<open>
  The tables of \<open>create_basic_schema\<close>, as the two CREATE TABLE statements declare them.
\<close>

definition basic_argo_floats :: table where
  "basic_argo_floats =
     \<lparr>tcols = [''float_id'', ''latitude'', ''longitude'', ''measurement_date'',
               ''ocean_region'', ''status''],
      notnull = [''float_id'', ''latitude'', ''longitude'', ''measurement_date''],
      uniq = [],
      dflt = (\<lambda>c. if c = ''status'' then Str ''active'' else Null),
      trows = []\<rparr>"

definition basic_temperature_data :: table where
  "basic_temperature_data =
     \<lparr>tcols = [''float_id'', ''measurement_date'', ''depth_meters'', ''temperature_celsius''],
      notnull = [''float_id'', ''measurement_date'', ''depth_meters'', ''temperature_celsius''],
      uniq = [],
      dflt = (\<lambda>c. Null),
      trows = []\<rparr>"

text \<open>
  A statement of a schema script: CREATE TABLE IF NOT EXISTS with the table it declares,
  any statement that leaves the tables as they are (CREATE INDEX), or a statement the
  engine rejects.
\<close>

datatype ddl = Create_table string table | No_table_change | Rejected string

fun execute_ddl :: "ddl \<Rightarrow> db \<Rightarrow> error + db" where
  "execute_ddl (Create_table name tb) d =
     (case d name of
        None \<Rightarrow> Inr (d(name \<mapsto> tb\<lparr>trows := []\<rparr>))
      | Some _ \<Rightarrow> Inr d)"
| "execute_ddl No_table_change d = Inr d"
| "execute_ddl (Rejected msg) d = Inl (OperationalError msg)"

fun execute_all :: "ddl list \<Rightarrow> db \<Rightarrow> error + db" where
  "execute_all [] d = Inr d"
| "execute_all (s # ss) d =
     (case execute_ddl s d of Inl e \<Rightarrow> Inl e | Inr d' \<Rightarrow> execute_all ss d')"

definition create_basic_schema :: "conn \<Rightarrow> error + conn" where
  "create_basic_schema c =
     (case execute_all [Create_table ''argo_floats'' basic_argo_floats,
                        Create_table ''temperature_data'' basic_temperature_data] (working c) of
        Inl e \<Rightarrow> Inl e
      | Inr d \<Rightarrow> Inr (commit (c\<lparr>working := d\<rparr>)))"

text \<open>
  \<open>setup_database\<close>. The file \<open>database/schema.sql\<close> is not part of the sources: its
  statements are a parameter, \<open>None\<close> when the file is not found. Any other failure is
  raised again.
\<close>

definition setup_database :: "ddl list option \<Rightarrow> conn \<Rightarrow> error + conn" where
  "setup_database schema_file c =
     (case schema_file of
        None \<Rightarrow> create_basic_schema c
      | Some statements \<Rightarrow>
          (case execute_all statements (working c) of
             Inl e \<Rightarrow> Inl e
           | Inr d \<Rightarrow> Inr (commit (c\<lparr>working := d\<rparr>))))"

text \<open>The store of a database file that has just been created.\<close>

definition empty_conn :: conn where
  "empty_conn = \<lparr>committed = (\<lambda>name. None), working = (\<lambda>name. None)\<rparr>"

section \<open>Batch inserts\<close>

text \<open>
  \<open>row.get(label, default)\<close> on a row of \<open>df.iterrows()\<close>: the cell when the label is a
  column of the frame (a missing cell included), the default otherwise.
\<close>

definition row_get :: "dataframe \<Rightarrow> row \<Rightarrow> string \<Rightarrow> cell \<Rightarrow> cell" where
  "row_get df r label fallback = (if label \<in> set (df_columns df) then r label else fallback)"

definition insert_float_data :: "dataframe \<Rightarrow> db \<Rightarrow> db \<times> error option" where
  "insert_float_data df d =
     executemany True ''argo_floats''
       [''float_id'', ''platform_number'', ''cycle_number'', ''latitude'', ''longitude'',
        ''measurement_date'', ''ocean_region'', ''status'']
       (map (\<lambda>r. [row_get df r ''float_id'' Null,
                   row_get df r ''platform_number'' Null,
                   row_get df r ''cycle_number'' Null,
                   row_get df r ''latitude'' Null,
                   row_get df r ''longitude'' Null,
                   row_get df r ''measurement_date'' Null,
                   row_get df r ''ocean_region'' (Str ''Unknown''),
                   row_get df r ''status'' (Str ''active'')]) (df_rows df))
       d"

definition insert_temperature_data :: "dataframe \<Rightarrow> db \<Rightarrow> db \<times> error option" where
  "insert_temperature_data df d =
     executemany False ''temperature_data''
       [''float_id'', ''measurement_date'', ''depth_meters'', ''temperature_celsius'',
        ''quality_flag'', ''pressure_dbar'']
       (map (\<lambda>r. [row_get df r ''float_id'' Null,
                   row_get df r ''measurement_date'' Null,
                   row_get df r ''depth_meters'' (Num (Finite 0)),
                   row_get df r ''temperature_celsius'' Null,
                   row_get df r ''quality_flag'' (Num (Finite 1)),
                   row_get df r ''pressure_dbar'' Null]) (df_rows df))
       d"

definition insert_salinity_data :: "dataframe \<Rightarrow> db \<Rightarrow> db \<times> error option" where
  "insert_salinity_data df d =
     executemany False ''salinity_data''
       [''float_id'', ''measurement_date'', ''depth_meters'', ''salinity_psu'',
        ''quality_flag'', ''conductivity'']
       (map (\<lambda>r. [row_get df r ''float_id'' Null,
                   row_get df r ''measurement_date'' Null,
                   row_get df r ''depth_meters'' (Num (Finite 0)),
                   row_get df r ''salinity_psu'' Null,
                   row_get df r ''quality_flag'' (Num (Finite 1)),
                   row_get df r ''conductivity'' Null]) (df_rows df))
       d"

definition insert_oxygen_data :: "dataframe \<Rightarrow> db \<Rightarrow> db \<times> error option" where
  "insert_oxygen_data df d =
     executemany False ''oxygen_data''
       [''float_id'', ''measurement_date'', ''depth_meters'', ''oxygen_mg_per_l'',
        ''oxygen_saturation'', ''quality_flag'']
       (map (\<lambda>r. [row_get df r ''float_id'' Null,
                   row_get df r ''measurement_date'' Null,
                   row_get df r ''depth_meters'' (Num (Finite 0)),
                   row_get df r ''oxygen_mg_per_l'' Null,
                   row_get df r ''oxygen_saturation'' Null,
                   row_get df r ''quality_flag'' (Num (Finite 1))]) (df_rows df))
       d"

section \<open>Chunked importer\<close>

text \<open>
  The region of one row, as the lambda of \<open>chunk.apply\<close> computes it. The latitude is
  compared in the first test, so a latitude that cannot be compared raises. The
  longitude is compared only when the latitude lies in [-30, 60] (the conjunctions
  short-circuit); outside it the label depends on the latitude alone.
\<close>

definition row_region :: "row \<Rightarrow> error + string" where
  "row_region r =
     (case cell_float (r ''latitude'') of
        None \<Rightarrow> Inl TypeError
      | Some lat \<Rightarrow>
          (case cell_float (r ''longitude'') of
             Some lon \<Rightarrow> Inr (get_ocean_region lat lon)
           | None \<Rightarrow>
               if fle (Finite (- 30)) lat \<and> fle lat (Finite 60) then Inl TypeError
               else Inr (get_ocean_region lat NaN)))"

text \<open>
  \<open>chunk['ocean_region'] = chunk.apply(lambda row: ..., axis=1)\<close>. On a frame with no
  row the lambda is not applied to any row and the column is added empty.
\<close>

definition apply_region :: "dataframe \<Rightarrow> error + dataframe" where
  "apply_region df =
     (if df_rows df \<noteq> [] \<and> \<not> (''latitude'' \<in> set (df_columns df) \<and> ''longitude'' \<in> set (df_columns df))
      then Inl (KeyError ''latitude'')
      else if list_ex (\<lambda>r. row_region r = Inl TypeError) (df_rows df) then Inl TypeError
      else Inr \<lparr>df_columns = (if ''ocean_region'' \<in> set (df_columns df) then df_columns df
                               else df_columns df @ [''ocean_region'']),
                df_rows = map (\<lambda>r. r(''ocean_region'' :=
                                  (case row_region r of Inr label \<Rightarrow> Str label | Inl _ \<Rightarrow> Null)))
                            (df_rows df)\<rparr>)"

text \<open>
  The \<open>region_mapping\<close> argument is only tested for truth: None and the empty dict are
  false.
\<close>

type_synonym region_mapping = "(string \<times> string) list option"

fun mapping_given :: "region_mapping \<Rightarrow> bool" where
  "mapping_given None = False"
| "mapping_given (Some m) = (m \<noteq> [])"

text \<open>The if/elif chain that picks the insert; no branch for any other kind.\<close>

definition insert_by_kind :: "string \<Rightarrow> dataframe \<Rightarrow> db \<Rightarrow> db \<times> error option" where
  "insert_by_kind data_type chunk d =
     (if data_type = ''floats'' then insert_float_data chunk d
      else if data_type = ''temperature'' then insert_temperature_data chunk d
      else if data_type = ''salinity'' then insert_salinity_data chunk d
      else if data_type = ''oxygen'' then insert_oxygen_data chunk d
      else (d, None))"

text \<open>
  The body of the \<open>for\<close> loop over the chunks, with the database of the open
  transaction and \<open>total_rows\<close> passed along. An exception stops the loop; the result
  then carries the database as the failing step left it.
\<close>

fun import_chunks ::
  "parser \<Rightarrow> string \<Rightarrow> region_mapping \<Rightarrow> dataframe list \<Rightarrow> db \<Rightarrow> nat \<Rightarrow> db \<times> nat \<times> error option" where
  "import_chunks parse data_type rm [] d total_rows = (d, total_rows, None)"
| "import_chunks parse data_type rm (chunk # rest) d total_rows =
     (case clean_data parse chunk data_type of
        Inl e \<Rightarrow> (d, total_rows, Some e)
      | Inr chunk1 \<Rightarrow>
          (case (if mapping_given rm \<and> data_type = ''floats'' then apply_region chunk1
                 else Inr chunk1) of
             Inl e \<Rightarrow> (d, total_rows, Some e)
           | Inr chunk2 \<Rightarrow>
               (case insert_by_kind data_type chunk2 d of
                  (d', Some e) \<Rightarrow> (d', total_rows, Some e)
                | (d', None) \<Rightarrow>
                    import_chunks parse data_type rm rest d'
                      (total_rows + length (df_rows chunk2)))))"

text \<open>
  What the importer reads from outside the program: whether a path exists, and what
  \<open>pd.read_csv(path, chunksize=batch_size)\<close> gives. The call raises, or it gives an
  iterator: the chunks it yields, and the exception that ends the iteration when it
  does not end normally (a malformed line met late in the file).
\<close>

record env =
  path_exists :: "string \<Rightarrow> bool"
  read_csv :: "string \<Rightarrow> int \<Rightarrow> error + (dataframe list \<times> error option)"

text \<open>The calls of \<open>import_csv_data\<close> that reach outside the data: reading, commit, rollback.\<close>

datatype event = Read_csv string int | Commit | Rollback

text \<open>
  The \<open>try\<close> block of \<open>import_csv_data\<close> up to the commit: the database the open
  transaction holds when the block ends, \<open>total_rows\<close>, and the exception if one was
  raised.
\<close>

definition import_body ::
  "env \<Rightarrow> parser \<Rightarrow> string \<Rightarrow> string \<Rightarrow> int \<Rightarrow> region_mapping \<Rightarrow> db \<Rightarrow> db \<times> nat \<times> error option" where
  "import_body e parse csv_file_path data_type batch_size rm d =
     (case read_csv e csv_file_path batch_size of
        Inl err \<Rightarrow> (d, 0, Some err)
      | Inr (chunks, end_error) \<Rightarrow>
          (case import_chunks parse data_type rm chunks d 0 of
             (d', n, Some err) \<Rightarrow> (d', n, Some err)
           | (d', n, None) \<Rightarrow> (d', n, end_error)))"

text \<open>
  \<open>import_csv_data(csv_file_path, data_type, batch_size, region_mapping)\<close>: the returned
  boolean, the connection afterwards, and the outside calls made, in order.
\<close>

definition import_csv_data ::
  "env \<Rightarrow> parser \<Rightarrow> string \<Rightarrow> string \<Rightarrow> int \<Rightarrow> region_mapping \<Rightarrow> conn \<Rightarrow> bool \<times> conn \<times> event list" where
  "import_csv_data e parse csv_file_path data_type batch_size rm c =
     (if \<not> path_exists e csv_file_path then (False, c, [])
      else
        (case import_body e parse csv_file_path data_type batch_size rm (working c) of
           (d, n, None) \<Rightarrow>
             (True, commit (c\<lparr>working := d\<rparr>), [Read_csv csv_file_path batch_size, Commit])
         | (d, n, Some err) \<Rightarrow>
             (False, rollback (c\<lparr>working := d\<rparr>), [Read_csv csv_file_path batch_size, Rollback])))"

section \<open>Query layer\<close>

text \<open>An optional string argument is tested for truth: None and the empty string are false.\<close>

fun given :: "string option \<Rightarrow> bool" where
  "given None = False"
| "given (Some s) = (s \<noteq> [])"

text \<open>
  The SELECT of \<open>get_measurement_data\<close> is handed to the engine as text with its
  parameters. The engine's answer (an exception, or the column names of the cursor and
  the fetched rows) is a parameter of the model.
\<close>

type_synonym sql_engine = "db \<Rightarrow> string \<Rightarrow> cell list \<Rightarrow> error + (string list \<times> cell list list)"

definition table_map :: "(string \<times> string) list" where
  "table_map = [(''temperature'', ''temperature_data''),
                (''salinity'', ''salinity_data''),
                (''oxygen'', ''oxygen_data'')]"

text \<open>
  The query text as the source concatenates it (the line breaks and indentation of the
  multi-line literal are written as single spaces), and the parameter list.
\<close>

definition measurement_query ::
  "string \<Rightarrow> string option \<Rightarrow> string option \<Rightarrow> string option \<Rightarrow> string option \<Rightarrow> string" where
  "measurement_query tbl float_id start_date end_date region =
     (if given region
      then ''SELECT td.*, af.ocean_region FROM '' @ tbl
           @ '' td JOIN argo_floats af ON td.float_id = af.float_id WHERE af.ocean_region = ?''
      else ''SELECT * FROM '' @ tbl @ '' WHERE 1=1'')
     @ (if given float_id
        then (if given region then '' AND td.float_id = ?'' else '' AND float_id = ?'')
        else [])
     @ (if given start_date
        then (if given region then '' AND td.measurement_date >= ?''
              else '' AND measurement_date >= ?'')
        else [])
     @ (if given end_date
        then (if given region then '' AND td.measurement_date <= ?''
              else '' AND measurement_date <= ?'')
        else [])
     @ '' ORDER BY '' @ (if given region then ''td.'' else []) @ ''measurement_date DESC LIMIT ?''"

definition measurement_params ::
  "string option \<Rightarrow> string option \<Rightarrow> string option \<Rightarrow> string option \<Rightarrow> int \<Rightarrow> cell list" where
  "measurement_params float_id start_date end_date region limit =
     (if given region then [Str (the region)] else [])
     @ (if given float_id then [Str (the float_id)] else [])
     @ (if given start_date then [Str (the start_date)] else [])
     @ (if given end_date then [Str (the end_date)] else [])
     @ [Num (Finite (of_int limit))]"

text \<open>\<open>dict(zip(columns, row))\<close>: for a repeated column name the last value stays.\<close>

definition row_dict :: "string list \<Rightarrow> cell list \<Rightarrow> (string \<rightharpoonup> cell)" where
  "row_dict columns row_values = map_of (rev (zip columns row_values))"

definition get_measurement_data ::
  "sql_engine \<Rightarrow> conn \<Rightarrow> string \<Rightarrow> string option \<Rightarrow> string option \<Rightarrow> string option
   \<Rightarrow> string option \<Rightarrow> int \<Rightarrow> error + (string \<rightharpoonup> cell) list" where
  "get_measurement_data engine c data_type float_id start_date end_date region limit =
     (case map_of table_map data_type of
        None \<Rightarrow> Inl (ValueError (''Invalid data type: '' @ data_type))
      | Some tbl \<Rightarrow>
          (case engine (working c)
                  (measurement_query tbl float_id start_date end_date region)
                  (measurement_params float_id start_date end_date region limit) of
             Inl e \<Rightarrow> Inl e
           | Inr (columns, fetched) \<Rightarrow> Inr (map (row_dict columns) fetched)))"

text \<open>
  The order SQLite puts stored values in: NULL first, then the numbers by value, then the
  texts by their bytes. A timestamp is never stored (it cannot be bound); it is put last.
\<close>

fun bytes_le :: "string \<Rightarrow> string \<Rightarrow> bool" where
  "bytes_le [] ys = True"
| "bytes_le (x # xs) [] = False"
| "bytes_le (x # xs) (y # ys) =
     ((of_char x :: nat) < of_char y \<or> (x = y \<and> bytes_le xs ys))"

fun sql_le :: "cell \<Rightarrow> cell \<Rightarrow> bool" where
  "sql_le Null c = True"
| "sql_le (Num a) Null = False"
| "sql_le (Num a) (Num b) = fle a b"
| "sql_le (Num a) (Str y) = True"
| "sql_le (Num a) (Ts t) = True"
| "sql_le (Str x) Null = False"
| "sql_le (Str x) (Num b) = False"
| "sql_le (Str x) (Str y) = bytes_le x y"
| "sql_le (Str x) (Ts t) = True"
| "sql_le (Ts s) (Ts t) = (s \<le> t)"
| "sql_le (Ts s) c = False"

text \<open>
  The keys of the groups of a GROUP BY, as the engine returns them: each distinct value
  once, in ascending order (the engine groups by sorting on the key).
\<close>

fun insert_group :: "cell \<Rightarrow> cell list \<Rightarrow> cell list" where
  "insert_group g [] = [g]"
| "insert_group g (h # hs) = (if sql_le g h then g # h # hs else h # insert_group g hs)"

definition group_keys :: "cell list \<Rightarrow> cell list" where
  "group_keys xs = foldr insert_group (remdups xs) []"

text \<open>
  The statistics SELECT is a fixed text, with or without its WHERE clause; its meaning is
  written out on the table model: the selected rows are grouped by \<open>ocean_region\<close> (NULL
  is a group of its own), and each group gives COUNT(*), the number of its rows with
  status 'active', the number with status 'inactive', and its region. The groups come
  in the engine's order, ascending by region. A missing table or column is the engine's
  OperationalError.
\<close>

definition float_statistics_query :: "db \<Rightarrow> string option \<Rightarrow> error + (int \<times> int \<times> int \<times> cell) list" where
  "float_statistics_query d where_region =
     (case d ''argo_floats'' of
        None \<Rightarrow> Inl (OperationalError ''argo_floats'')
      | Some tb \<Rightarrow>
          (case filter (\<lambda>c. c \<notin> set (tcols tb)) [''status'', ''ocean_region''] of
             c # _ \<Rightarrow> Inl (OperationalError c)
           | [] \<Rightarrow>
               (let selected =
                      (case where_region of
                         None \<Rightarrow> trows tb
                       | Some x \<Rightarrow> filter (\<lambda>r. r ''ocean_region'' = Str x) (trows tb))
                in Inr (map (\<lambda>g.
                     (let grp = filter (\<lambda>r. r ''ocean_region'' = g) selected
                      in (int (length grp),
                          int (length (filter (\<lambda>r. r ''status'' = Str ''active'') grp)),
                          int (length (filter (\<lambda>r. r ''status'' = Str ''inactive'') grp)),
                          g)))
                     (group_keys (map (\<lambda>r. r ''ocean_region'') selected))))))"

text \<open>The values the statistics functions return: integers, cells, lists and dicts.\<close>

datatype pyval = PInt int | PCell cell | PList "pyval list" | PDict "(string \<times> pyval) list"

definition get_float_statistics :: "conn \<Rightarrow> string option \<Rightarrow> error + pyval" where
  "get_float_statistics c region =
     (case float_statistics_query (working c) (if given region then region else None) of
        Inl e \<Rightarrow> Inl e
      | Inr results \<Rightarrow>
          if given region then
            Inr (PDict
              [(''total_floats'', PInt (case results of [] \<Rightarrow> 0 | (t, a, i, g) # _ \<Rightarrow> t)),
               (''active_floats'', PInt (case results of [] \<Rightarrow> 0 | (t, a, i, g) # _ \<Rightarrow> a)),
               (''inactive_floats'', PInt (case results of [] \<Rightarrow> 0 | (t, a, i, g) # _ \<Rightarrow> i))])
          else
            Inr (PDict
              [(''regions'', PList (map (\<lambda>(t, a, i, g).
                  PDict [(''region'', PCell g),
                         (''total_floats'', PInt t),
                         (''active_floats'', PInt a),
                         (''inactive_floats'', PInt i)]) results))]))"

text \<open>
  \<open>get_statistics\<close>. The class defines \<open>__init__\<close>, \<open>ensure_directory\<close>, \<open>connect\<close>,
  \<open>setup_database\<close>, \<open>create_basic_schema\<close>, \<open>import_csv_data\<close>, \<open>clean_data\<close>,
  \<open>get_ocean_region\<close>, the four \<open>insert_..._data\<close>, \<open>get_float_data\<close>,
  \<open>get_measurement_data\<close>, \<open>get_statistics\<close>, \<open>get_float_statistics\<close> and \<open>close\<close>, and
  its instances carry \<open>db_path\<close> and \<open>conn\<close>. It has no base class and no
  \<open>__getattr__\<close>. There is no \<open>get_measurement_statistics\<close>: the lookup of the attribute
  raises AttributeError before the call is made.
\<close>

definition get_statistics :: "conn \<Rightarrow> string \<Rightarrow> string option \<Rightarrow> error + pyval" where
  "get_statistics c data_type region =
     (if data_type = ''floats'' then get_float_statistics c region
      else Inl (AttributeError ''get_measurement_statistics''))"

section \<open>Notions used to state the properties\<close>

text \<open>The four data kinds the importer has an insert for.\<close>

definition known_kinds :: "string set" where
  "known_kinds = {''floats'', ''temperature'', ''salinity'', ''oxygen''}"

text \<open>
  The fallback schema is in effect in a database: \<open>argo_floats\<close> and \<open>temperature_data\<close>
  have the columns \<open>create_basic_schema\<close> declares, and the other two tables do not exist.
\<close>

definition fallback_in_effect :: "db \<Rightarrow> bool" where
  "fallback_in_effect d =
     (map_option tcols (d ''argo_floats'') = Some (tcols basic_argo_floats)
      \<and> map_option tcols (d ''temperature_data'') = Some (tcols basic_temperature_data)
      \<and> d ''salinity_data'' = None
      \<and> d ''oxygen_data'' = None)"

text \<open>The number of rows of a table; a table that does not exist has none.\<close>

definition row_count :: "db \<Rightarrow> string \<Rightarrow> nat" where
  "row_count d name = (case d name of None \<Rightarrow> 0 | Some tb \<Rightarrow> length (trows tb))"

text \<open>The rows of \<open>R\<close> whose value in column \<open>k\<close> is not the value of a row of \<open>S\<close>.\<close>

definition unkeyed :: "string \<Rightarrow> row list \<Rightarrow> row list \<Rightarrow> row list" where
  "unkeyed k S R = filter (\<lambda>x. x k \<notin> (\<lambda>y. y k) ` set S) R"

section \<open>Example data\<close>

text \<open>A date parser that knows one date, and keeps a timestamp.\<close>

definition ex_parse :: parser where
  "ex_parse col c =
     (case c of
        Str s \<Rightarrow> (if s = ''2024-01-01'' then Some 0 else None)
      | Ts t \<Rightarrow> Some t
      | _ \<Rightarrow> None)"

text \<open>A disk with no file on it.\<close>

definition no_files :: env where
  "no_files = \<lparr>path_exists = (\<lambda>p. False), read_csv = (\<lambda>p n. Inl (CsvError p))\<rparr>"

text \<open>A temperature table with the six columns the insert names.\<close>

definition ex_temperature_table :: table where
  "ex_temperature_table =
     \<lparr>tcols = [''float_id'', ''measurement_date'', ''depth_meters'', ''temperature_celsius'',
               ''quality_flag'', ''pressure_dbar''],
      notnull = [''float_id'', ''measurement_date'', ''depth_meters'', ''temperature_celsius''],
      uniq = [],
      dflt = (\<lambda>c. if c = ''quality_flag'' then Num (Finite 1) else Null),
      trows = []\<rparr>"

text \<open>
  A float table with the eight columns the insert names, keyed by \<open>float_id\<close>; a float
  may have no date.
\<close>

definition ex_float_table :: table where
  "ex_float_table =
     \<lparr>tcols = [''float_id'', ''platform_number'', ''cycle_number'', ''latitude'', ''longitude'',
               ''measurement_date'', ''ocean_region'', ''status''],
      notnull = [''float_id'', ''latitude'', ''longitude''],
      uniq = [''float_id''],
      dflt = (\<lambda>c. if c = ''status'' then Str ''active'' else Null),
      trows = []\<rparr>"

text \<open>A temperature batch of one complete row.\<close>

definition ex_good_temperature_chunk :: dataframe where
  "ex_good_temperature_chunk =
     \<lparr>df_columns = [''float_id'', ''measurement_date'', ''temperature_celsius''],
      df_rows = [(\<lambda>c. Null)(''float_id'' := Str ''F1'', ''measurement_date'' := Str ''2024-01-01'',
                            ''temperature_celsius'' := Num (Finite 12))]\<rparr>"

text \<open>A float batch: two rows for the same float, and a row with a date that does not parse.\<close>

definition ex_float_chunk :: dataframe where
  "ex_float_chunk =
     \<lparr>df_columns = [''float_id'', ''latitude'', ''longitude'', ''measurement_date''],
      df_rows = [(\<lambda>c. Null)(''float_id'' := Str ''F1'', ''latitude'' := Num (Finite 45),
                            ''longitude'' := Num (Finite (- 60)),
                            ''measurement_date'' := Str ''2024-01-01''),
                 (\<lambda>c. Null)(''float_id'' := Str ''F1'', ''latitude'' := Num (Finite 10),
                            ''longitude'' := Num (Finite 170),
                            ''measurement_date'' := Str ''2024-01-01''),
                 (\<lambda>c. Null)(''float_id'' := Str ''F2'', ''latitude'' := Num (Finite 10),
                            ''longitude'' := Num (Finite 170),
                            ''measurement_date'' := Str ''yesterday'')]\<rparr>"

text \<open>A float batch without a \<open>measurement_date\<close> column.\<close>

definition ex_undated_chunk :: dataframe where
  "ex_undated_chunk =
     \<lparr>df_columns = [''float_id'', ''latitude'', ''longitude''],
      df_rows = [(\<lambda>c. Null)(''float_id'' := Str ''F1'', ''latitude'' := Num (Finite 45),
                            ''longitude'' := Num (Finite (- 60)))]\<rparr>"

text \<open>
  A float batch without a \<open>measurement_date\<close> column: two rows for the same float and one
  for another.
\<close>

definition ex_undated_floats :: dataframe where
  "ex_undated_floats =
     \<lparr>df_columns = [''float_id'', ''latitude'', ''longitude''],
      df_rows = [(\<lambda>c. Null)(''float_id'' := Str ''F1'', ''latitude'' := Num (Finite 45),
                            ''longitude'' := Num (Finite (- 60))),
                 (\<lambda>c. Null)(''float_id'' := Str ''F1'', ''latitude'' := Num (Finite 10),
                            ''longitude'' := Num (Finite 170)),
                 (\<lambda>c. Null)(''float_id'' := Str ''F2'', ''latitude'' := Num (Finite 70),
                            ''longitude'' := Num (Finite 0))]\<rparr>"

text \<open>
  A disk with five files, each read as one chunk; the reader raises at the end of
  \<open>truncated.csv\<close>, after its one chunk.
\<close>

definition ex_env :: env where
  "ex_env =
     \<lparr>path_exists = (\<lambda>p. p \<in> set [''data/good_temperature.csv'', ''data/argo_floats.csv'',
                                    ''data/notes.csv'', ''data/undated_floats.csv'',
                                    ''data/truncated.csv'']),
      read_csv = (\<lambda>p n.
        if p = ''data/good_temperature.csv'' then Inr ([ex_good_temperature_chunk], None)
        else if p = ''data/argo_floats.csv'' then Inr ([ex_float_chunk], None)
        else if p = ''data/notes.csv'' then Inr ([ex_undated_chunk], None)
        else if p = ''data/undated_floats.csv'' then Inr ([ex_undated_floats], None)
        else if p = ''data/truncated.csv''
          then Inr ([ex_undated_chunk], Some (CsvError ''Error tokenizing data''))
        else Inl (CsvError p))\<rparr>"

text \<open>A store with the two example tables, empty, and no open transaction.\<close>

definition ex_db :: db where
  "ex_db = (\<lambda>name. None)(''temperature_data'' \<mapsto> ex_temperature_table,
                           ''argo_floats'' \<mapsto> ex_float_table)"

definition ex_conn :: conn where
  "ex_conn = \<lparr>committed = ex_db, working = ex_db\<rparr>"



text \<open>An engine that answers every SELECT with one row.\<close>

definition ex_engine :: sql_engine where
  "ex_engine d q ps = Inr ([''float_id'', ''salinity_psu''], [[Str ''F1'', Num (Finite 35)]])"

text \<open>A store whose float table holds three floats in two regions.\<close>

definition ex_stats_conn :: conn where
  "ex_stats_conn =
     \<lparr>committed = (\<lambda>name. None),
      working = (\<lambda>name. None)(''argo_floats'' \<mapsto> ex_float_table\<lparr>trows :=
        [(\<lambda>c. Null)(''float_id'' := Str ''F1'', ''ocean_region'' := Str ''Pacific Ocean'',
                     ''status'' := Str ''active''),
         (\<lambda>c. Null)(''float_id'' := Str ''F2'', ''ocean_region'' := Str ''Pacific Ocean'',
                     ''status'' := Str ''inactive''),
         (\<lambda>c. Null)(''float_id'' := Str ''F3'', ''ocean_region'' := Str ''Arctic Ocean'',
                     ''status'' := Str ''active'')]\<rparr>)\<rparr>"

text \<open>The connection of a fresh database file set up with no schema file on disk.\<close>

definition ex_fallback_conn :: conn where
  "ex_fallback_conn = (case setup_database None empty_conn of Inr c \<Rightarrow> c | Inl _ \<Rightarrow> empty_conn)"

section \<open>Properties of the region classifier\<close>

text \<open>
  C2. For every pair of floats (NaN and the infinities included) the classifier returns a
  label of the six, and the label is the one of the first test that holds in the order
  Atlantic, Pacific, Indian, Arctic, Southern, \<open>Unknown\<close> when none holds.
  (45, -60) is Atlantic, (10, 170) Pacific, (70, 0) Arctic, (-50, 0) Southern.
  (0, -170) is caught by the first branch, the Atlantic box, whose longitude range
  reaches down to -180: this is the "unless an earlier branch catches it" of the
  specification, and the label is Atlantic, not \<open>Unknown\<close>.
\<close>

theorem get_ocean_region_classifies:
  "get_ocean_region lat lon \<in> region_labels
   \<and> get_ocean_region lat lon = first_match region_tests lat lon
   \<and> get_ocean_region (Finite 45) (Finite (- 60)) = ''Atlantic Ocean''
   \<and> get_ocean_region (Finite 10) (Finite 170) = ''Pacific Ocean''
   \<and> get_ocean_region (Finite 70) (Finite 0) = ''Arctic Ocean''
   \<and> get_ocean_region (Finite (- 50)) (Finite 0) = ''Southern Ocean''
   \<and> get_ocean_region (Finite 0) (Finite (- 170)) = ''Atlantic Ocean''"
proof -
  have labels: "get_ocean_region lat lon \<in> region_labels"
    by (simp add: get_ocean_region_def region_labels_def)
  have order: "get_ocean_region lat lon = first_match region_tests lat lon"
    by (simp add: get_ocean_region_def region_tests_def in_box_def fge_def)
  have points:
    "get_ocean_region (Finite 45) (Finite (- 60)) = ''Atlantic Ocean''"
    "get_ocean_region (Finite 10) (Finite 170) = ''Pacific Ocean''"
    "get_ocean_region (Finite 70) (Finite 0) = ''Arctic Ocean''"
    "get_ocean_region (Finite (- 50)) (Finite 0) = ''Southern Ocean''"
    "get_ocean_region (Finite 0) (Finite (- 170)) = ''Atlantic Ocean''"
    by (simp_all add: get_ocean_region_def fge_def)
  from labels order points show ?thesis by simp
qed

section \<open>Properties of the importer\<close>

text \<open>
  C5. For a path that does not exist, whatever the data kind, the batch size and the
  mapping, \<open>import_csv_data\<close> returns False, leaves the connection as it was, and makes no
  outside call: the file is not read, and nothing is committed or rolled back.
\<close>

theorem import_missing_file:
  "\<not> path_exists e csv_file_path \<Longrightarrow>
   import_csv_data e parse csv_file_path data_type batch_size rm c = (False, c, [])"
  by (simp add: import_csv_data_def)

theorem import_missing_file_witness:
  "import_csv_data no_files ex_parse ''data/argo_floats.csv'' ''floats'' 1000 None ex_conn
     = (False, ex_conn, [])"
  using import_missing_file [of no_files "''data/argo_floats.csv''"]
  by (simp add: no_files_def)

text \<open>
  C4. For a file that exists: when an exception is raised while the file is processed
  (by the reader, the validator, the classifier or an insert), \<open>import_csv_data\<close> returns
  False after one rollback, and the open transaction holds the last committed database
  again, whatever the batches before the failure had written; with no transaction open
  at the start, the connection is as it was at the start. When no exception is raised,
  it returns True after exactly one commit, made on the database that all the batches
  have left.
\<close>

theorem import_csv_data_atomic:
  assumes "path_exists e csv_file_path"
    and "import_body e parse csv_file_path data_type batch_size rm (working c) = (d, n, err)"
  shows "(err \<noteq> None \<longrightarrow>
            import_csv_data e parse csv_file_path data_type batch_size rm c
              = (False, c\<lparr>working := committed c\<rparr>, [Read_csv csv_file_path batch_size, Rollback]))
       \<and> (err \<noteq> None \<and> working c = committed c \<longrightarrow>
            import_csv_data e parse csv_file_path data_type batch_size rm c
              = (False, c, [Read_csv csv_file_path batch_size, Rollback]))
       \<and> (err = None \<longrightarrow>
            import_csv_data e parse csv_file_path data_type batch_size rm c
              = (True, c\<lparr>committed := d, working := d\<rparr>, [Read_csv csv_file_path batch_size, Commit]))"
  using assms
  by (cases err) (auto simp add: import_csv_data_def commit_def rollback_def)

lemmas ex_import_defs =
  import_body_def ex_env_def ex_conn_def ex_db_def clean_data_def drop_missing_def dropna_def
  select_between_def convert_dates_def to_datetime_def ex_parse_def insert_by_kind_def
  executemany_def insert_row_def new_row_def row_get_def conflicts_def fge_def

lemma ex_failing_body:
  "snd (import_body ex_env ex_parse ''data/truncated.csv'' ''floats'' 1000 None
          (working ex_conn))
     = (1, Some (CsvError ''Error tokenizing data''))"
  "row_count (fst (import_body ex_env ex_parse ''data/truncated.csv'' ''floats''
          1000 None (working ex_conn))) ''argo_floats'' = 1"
  by (simp_all add: ex_import_defs insert_float_data_def ex_undated_chunk_def
      ex_float_table_def row_count_def)

theorem import_csv_data_atomic_witness:
  "import_csv_data ex_env ex_parse ''data/truncated.csv'' ''floats'' 1000 None ex_conn
     = (False, ex_conn, [Read_csv ''data/truncated.csv'' 1000, Rollback])
   \<and> row_count (fst (import_body ex_env ex_parse ''data/truncated.csv'' ''floats''
          1000 None (working ex_conn))) ''argo_floats'' = 1
   \<and> row_count (working ex_conn) ''argo_floats'' = 0"
proof -
  have exists: "path_exists ex_env ''data/truncated.csv''"
    by (simp add: ex_env_def)
  have body: "import_body ex_env ex_parse ''data/truncated.csv'' ''floats'' 1000 None
                (working ex_conn)
     = (fst (import_body ex_env ex_parse ''data/truncated.csv'' ''floats'' 1000 None
                (working ex_conn)), 1, Some (CsvError ''Error tokenizing data''))"
    using ex_failing_body(1) by (simp add: prod_eq_iff)
  have clean: "working ex_conn = committed ex_conn"
    by (simp add: ex_conn_def)
  have empty: "row_count (working ex_conn) ''argo_floats'' = 0"
    by (simp add: ex_conn_def ex_db_def row_count_def ex_float_table_def)
  from import_csv_data_atomic [OF exists body] clean ex_failing_body(2) empty
  show ?thesis by simp
qed

section \<open>Properties of the query layer\<close>

lemma map_of_table_map:
  "map_of table_map data_type =
     (if data_type = ''temperature'' then Some ''temperature_data''
      else if data_type = ''salinity'' then Some ''salinity_data''
      else if data_type = ''oxygen'' then Some ''oxygen_data'' else None)"
  by (simp add: table_map_def)

text \<open>
  C6. For a data type outside temperature, salinity and oxygen, \<open>get_measurement_data\<close>
  raises ValueError, whatever the engine, the store and the filters: it returns no list,
  empty or not, and the engine is not asked. For a data type of the three, the kind check
  passes: the query on the kind's table goes to the engine, and the outcome is the
  engine's (its exception, or the fetched rows as dicts).
\<close>

theorem get_measurement_data_kind:
  "(data_type \<notin> {''temperature'', ''salinity'', ''oxygen''} \<longrightarrow>
      get_measurement_data engine c data_type float_id start_date end_date region limit
        = Inl (ValueError (''Invalid data type: '' @ data_type)))
   \<and> (data_type \<in> {''temperature'', ''salinity'', ''oxygen''} \<longrightarrow>
      get_measurement_data engine c data_type float_id start_date end_date region limit
        = (case engine (working c)
                  (measurement_query (data_type @ ''_data'') float_id start_date end_date region)
                  (measurement_params float_id start_date end_date region limit) of
             Inl e \<Rightarrow> Inl e
           | Inr (columns, fetched) \<Rightarrow> Inr (map (row_dict columns) fetched)))"
  by (auto simp add: get_measurement_data_def map_of_table_map)

theorem get_measurement_data_kind_witness:
  "get_measurement_data ex_engine ex_conn ''pressure'' None None None None 1000
     = Inl (ValueError ''Invalid data type: pressure'')
   \<and> get_measurement_data ex_engine ex_conn ''salinity'' None None None None 1000
     = Inr [row_dict [''float_id'', ''salinity_psu''] [Str ''F1'', Num (Finite 35)]]"
  using get_measurement_data_kind [of "''pressure''" ex_engine ex_conn None None None None 1000]
    get_measurement_data_kind [of "''salinity''" ex_engine ex_conn None None None None 1000]
  by (simp add: ex_engine_def)

text \<open>
  C8. For every data type other than \<open>floats\<close>, every region and every store,
  \<open>get_statistics\<close> raises AttributeError: the method it calls is not defined.
\<close>

theorem get_statistics_raises:
  "data_type \<noteq> ''floats'' \<Longrightarrow>
   get_statistics c data_type region = Inl (AttributeError ''get_measurement_statistics'')"
  by (simp add: get_statistics_def)

theorem get_statistics_raises_witness:
  "get_statistics ex_conn ''temperature'' (Some ''Pacific Ocean'')
     = Inl (AttributeError ''get_measurement_statistics'')"
  using get_statistics_raises [of "''temperature''" ex_conn "Some ''Pacific Ocean''"]
  by simp

section \<open>The importer on unknown kinds and on the fallback schema\<close>

lemma clean_data_unknown:
  "data_type \<notin> known_kinds \<Longrightarrow>
   clean_data parse df data_type =
     Inr (if ''measurement_date'' \<in> set (df_columns df) then convert_dates parse df else df)"
  by (simp add: clean_data_def drop_missing_def known_kinds_def)

lemma import_chunks_unknown:
  "data_type \<notin> known_kinds \<Longrightarrow>
   import_chunks parse data_type rm chunks d n =
     (d, n + (\<Sum>ch\<leftarrow>chunks. case clean_data parse ch data_type of
                               Inr out \<Rightarrow> length (df_rows out) | Inl _ \<Rightarrow> 0), None)"
proof (induction chunks arbitrary: n)
  case Nil
  then show ?case by simp
next
  case (Cons ch chunks)
  have kind: "data_type \<noteq> ''floats''" "data_type \<noteq> ''temperature''"
    "data_type \<noteq> ''salinity''" "data_type \<noteq> ''oxygen''"
    using Cons.prems by (auto simp add: known_kinds_def)
  show ?case
    using Cons.IH [OF Cons.prems] kind
    by (simp add: clean_data_unknown [OF Cons.prems] insert_by_kind_def)
qed

text \<open>
  C9. For a data type outside the four kinds and a file that exists and is read to its
  end without an exception, \<open>import_csv_data\<close> returns True after one commit;
  \<open>total_rows\<close> has accumulated the number of rows of every cleaned batch; and no table
  is written: the database of the open transaction is the one it was, and it is what is
  committed, so that with no transaction open at the start the connection is unchanged.
\<close>

theorem import_unknown_kind:
  assumes "data_type \<notin> known_kinds"
    and "path_exists e csv_file_path"
    and "read_csv e csv_file_path batch_size = Inr (chunks, None)"
  shows "import_csv_data e parse csv_file_path data_type batch_size rm c
           = (True, c\<lparr>committed := working c\<rparr>, [Read_csv csv_file_path batch_size, Commit])
       \<and> import_body e parse csv_file_path data_type batch_size rm (working c)
           = (working c,
              (\<Sum>ch\<leftarrow>chunks. case clean_data parse ch data_type of
                               Inr out \<Rightarrow> length (df_rows out) | Inl _ \<Rightarrow> 0),
              None)
       \<and> (working c = committed c \<longrightarrow>
            import_csv_data e parse csv_file_path data_type batch_size rm c
              = (True, c, [Read_csv csv_file_path batch_size, Commit]))"
proof -
  have body: "import_body e parse csv_file_path data_type batch_size rm (working c)
           = (working c,
              (\<Sum>ch\<leftarrow>chunks. case clean_data parse ch data_type of
                               Inr out \<Rightarrow> length (df_rows out) | Inl _ \<Rightarrow> 0),
              None)"
    using assms(3) by (simp add: import_body_def import_chunks_unknown [OF assms(1)])
  have "import_csv_data e parse csv_file_path data_type batch_size rm c
           = (True, c\<lparr>committed := working c\<rparr>, [Read_csv csv_file_path batch_size, Commit])"
    using assms(2) by (simp add: import_csv_data_def body commit_def)
  with body show ?thesis by auto
qed

theorem import_unknown_kind_witness:
  "import_csv_data ex_env ex_parse ''data/notes.csv'' ''notes'' 1000 None ex_conn
     = (True, ex_conn, [Read_csv ''data/notes.csv'' 1000, Commit])
   \<and> import_body ex_env ex_parse ''data/notes.csv'' ''notes'' 1000 None (working ex_conn)
     = (working ex_conn, 1, None)"
proof -
  have kind: "''notes'' \<notin> known_kinds" by (simp add: known_kinds_def)
  have exists: "path_exists ex_env ''data/notes.csv''" by (simp add: ex_env_def)
  have read: "read_csv ex_env ''data/notes.csv'' 1000 = Inr ([ex_undated_chunk], None)"
    by (simp add: ex_env_def)
  have clean: "working ex_conn = committed ex_conn" by (simp add: ex_conn_def)
  have cleaned: "clean_data ex_parse ex_undated_chunk ''notes'' = Inr ex_undated_chunk"
    by (simp add: clean_data_def drop_missing_def ex_undated_chunk_def)
  have rows: "length (df_rows ex_undated_chunk) = 1" by (simp add: ex_undated_chunk_def)
  from import_unknown_kind [OF kind exists read, of ex_parse None ex_conn] clean cleaned rows
  show ?thesis by simp
qed

lemma insert_fails_on_fallback:
  assumes "fallback_in_effect d" and "data_type \<in> known_kinds"
  shows "\<exists>err. insert_by_kind data_type chunk d = (d, Some err)"
proof -
  from assms(1) obtain af td where
    af: "d ''argo_floats'' = Some af" "tcols af = tcols basic_argo_floats" and
    td: "d ''temperature_data'' = Some td" "tcols td = tcols basic_temperature_data" and
    none: "d ''salinity_data'' = None" "d ''oxygen_data'' = None"
    by (auto simp add: fallback_in_effect_def)
  from assms(2) consider "data_type = ''floats''" | "data_type = ''temperature''"
    | "data_type = ''salinity''" | "data_type = ''oxygen''"
    by (auto simp add: known_kinds_def)
  then show ?thesis
  proof cases
    case 1
    then show ?thesis using af
      by (simp add: insert_by_kind_def insert_float_data_def executemany_def basic_argo_floats_def)
  next
    case 2
    then show ?thesis using td
      by (simp add: insert_by_kind_def insert_temperature_data_def executemany_def
          basic_temperature_data_def)
  next
    case 3
    then show ?thesis using none
      by (simp add: insert_by_kind_def insert_salinity_data_def executemany_def)
  next
    case 4
    then show ?thesis using none
      by (simp add: insert_by_kind_def insert_oxygen_data_def executemany_def)
  qed
qed

lemma import_chunks_fails_on_fallback:
  assumes "fallback_in_effect d" and "data_type \<in> known_kinds" and "chunks \<noteq> []"
  shows "\<exists>n err. import_chunks parse data_type rm chunks d n0 = (d, n, Some err)"
proof -
  from assms(3) obtain ch rest where chunks: "chunks = ch # rest" by (cases chunks) auto
  show ?thesis
  proof (cases "clean_data parse ch data_type")
    case (Inl err)
    then show ?thesis by (simp add: chunks)
  next
    case (Inr chunk1)
    show ?thesis
    proof (cases "if mapping_given rm \<and> data_type = ''floats'' then apply_region chunk1 else Inr chunk1")
      case (Inl err)
      then show ?thesis using Inr by (simp add: chunks)
    next
      case Inr2: (Inr chunk2)
      from insert_fails_on_fallback [OF assms(1,2)] obtain err where
        "insert_by_kind data_type chunk2 d = (d, Some err)" by blast
      then show ?thesis using Inr Inr2 by (simp add: chunks)
    qed
  qed
qed

lemma basic_schema_columns:
  "''platform_number'' \<notin> set (tcols basic_argo_floats)"
  "''cycle_number'' \<notin> set (tcols basic_argo_floats)"
  "''quality_flag'' \<notin> set (tcols basic_temperature_data)"
  "''pressure_dbar'' \<notin> set (tcols basic_temperature_data)"
  by (simp_all add: basic_argo_floats_def basic_temperature_data_def)

lemma setup_without_schema_file:
  "setup_database None empty_conn = Inr ex_fallback_conn"
  "fallback_in_effect (working ex_fallback_conn)"
  "working ex_fallback_conn = committed ex_fallback_conn"
  by (simp_all add: ex_fallback_conn_def setup_database_def create_basic_schema_def
      empty_conn_def commit_def fallback_in_effect_def)

text \<open>
  C10. Setting up a fresh database with no schema file on disk puts the fallback schema
  in effect: two tables, without the columns \<open>platform_number\<close> and \<open>cycle_number\<close>
  (floats) and \<open>quality_flag\<close> and \<open>pressure_dbar\<close> (temperature) that the inserts name, and
  no salinity or oxygen table. With that schema in effect, for each of the four data kinds,
  an import of an existing file with a batch that cleans to at least one row returns False
  after a rollback: the insert raises.
\<close>

theorem import_fails_on_fallback_schema:
  assumes "fallback_in_effect (working c)"
    and "data_type \<in> known_kinds"
    and "path_exists e csv_file_path"
    and "read_csv e csv_file_path batch_size = Inr (chunks, end_error)"
    and "chunk \<in> set chunks"
    and "clean_data parse chunk data_type = Inr cleaned"
    and "df_rows cleaned \<noteq> []"
  shows "import_csv_data e parse csv_file_path data_type batch_size rm c
           = (False, c\<lparr>working := committed c\<rparr>, [Read_csv csv_file_path batch_size, Rollback])
       \<and> setup_database None empty_conn = Inr ex_fallback_conn
       \<and> fallback_in_effect (working ex_fallback_conn)
       \<and> ''platform_number'' \<notin> set (tcols basic_argo_floats)
       \<and> ''cycle_number'' \<notin> set (tcols basic_argo_floats)
       \<and> ''quality_flag'' \<notin> set (tcols basic_temperature_data)
       \<and> ''pressure_dbar'' \<notin> set (tcols basic_temperature_data)"
proof -
  from assms(5) have "chunks \<noteq> []" by auto
  from import_chunks_fails_on_fallback [OF assms(1,2) this]
  obtain n err where "import_chunks parse data_type rm chunks (working c) 0 = (working c, n, Some err)"
    by blast
  then have "import_body e parse csv_file_path data_type batch_size rm (working c)
               = (working c, n, Some err)"
    using assms(4) by (simp add: import_body_def)
  then have "import_csv_data e parse csv_file_path data_type batch_size rm c
           = (False, c\<lparr>working := committed c\<rparr>, [Read_csv csv_file_path batch_size, Rollback])"
    using assms(3) by (simp add: import_csv_data_def rollback_def)
  with basic_schema_columns setup_without_schema_file(1,2) show ?thesis by simp
qed

theorem import_fails_on_fallback_schema_witness:
  "import_csv_data ex_env ex_parse ''data/good_temperature.csv'' ''temperature'' 1000 None
       ex_fallback_conn
     = (False, ex_fallback_conn, [Read_csv ''data/good_temperature.csv'' 1000, Rollback])
   \<and> length (df_rows ex_good_temperature_chunk) = 1"
proof -
  have kind: "''temperature'' \<in> known_kinds" by (simp add: known_kinds_def)
  have exists: "path_exists ex_env ''data/good_temperature.csv''" by (simp add: ex_env_def)
  have read: "read_csv ex_env ''data/good_temperature.csv'' 1000
                = Inr ([ex_good_temperature_chunk], None)"
    by (simp add: ex_env_def)
  have member: "ex_good_temperature_chunk \<in> set [ex_good_temperature_chunk]" by simp
  obtain cleaned where cleaned:
    "clean_data ex_parse ex_good_temperature_chunk ''temperature'' = Inr cleaned"
    "length (df_rows cleaned) = 1"
    by (simp add: clean_data_def drop_missing_def dropna_def convert_dates_def to_datetime_def
        ex_parse_def ex_good_temperature_chunk_def)
  from cleaned(2) have nonempty: "df_rows cleaned \<noteq> []" by auto
  have rows: "length (df_rows ex_good_temperature_chunk) = 1"
    by (simp add: ex_good_temperature_chunk_def)
  from import_fails_on_fallback_schema [OF setup_without_schema_file(2) kind exists read member
      cleaned(1) nonempty, of None]
    setup_without_schema_file(3) rows
  show ?thesis by simp
qed

section \<open>Properties of the float statistics\<close>

lemma remdups_map_filter_eq:
  "remdups (map f (filter (\<lambda>r. f r = v) xs)) = (if filter (\<lambda>r. f r = v) xs = [] then [] else [v])"
proof (induction xs)
  case Nil
  then show ?case by simp
next
  case (Cons x xs)
  then show ?case by (auto simp add: filter_empty_conv)
qed

lemma filter_filter_same: "filter P (filter P xs) = filter P xs"
  by (induction xs) auto

lemma set_insert_group: "set (insert_group g xs) = insert g (set xs)"
  by (induction xs) auto

lemma distinct_insert_group: "distinct (insert_group g xs) = (g \<notin> set xs \<and> distinct xs)"
  by (induction xs) (auto simp add: set_insert_group)

lemma set_foldr_insert_group: "set (foldr insert_group ys []) = set ys"
  by (induction ys) (auto simp add: set_insert_group)

lemma distinct_foldr_insert_group: "distinct ys \<Longrightarrow> distinct (foldr insert_group ys [])"
  by (induction ys) (auto simp add: distinct_insert_group set_foldr_insert_group)

lemma set_group_keys: "set (group_keys xs) = set xs"
  by (simp add: group_keys_def set_foldr_insert_group)

lemma distinct_group_keys: "distinct (group_keys xs)"
  by (simp add: group_keys_def distinct_foldr_insert_group)

lemma group_keys_map_filter_eq:
  "group_keys (map f (filter (\<lambda>r. f r = v) xs))
     = (if filter (\<lambda>r. f r = v) xs = [] then [] else [v])"
  by (simp add: group_keys_def remdups_map_filter_eq)

lemma float_statistics_query_where:
  assumes "d ''argo_floats'' = Some tb"
    and "''status'' \<in> set (tcols tb)" and "''ocean_region'' \<in> set (tcols tb)"
  shows "float_statistics_query d (Some x) =
     Inr (if filter (\<lambda>r. r ''ocean_region'' = Str x) (trows tb) = [] then []
          else [(int (length (filter (\<lambda>r. r ''ocean_region'' = Str x) (trows tb))),
                 int (length (filter (\<lambda>r. r ''status'' = Str ''active'')
                        (filter (\<lambda>r. r ''ocean_region'' = Str x) (trows tb)))),
                 int (length (filter (\<lambda>r. r ''status'' = Str ''inactive'')
                        (filter (\<lambda>r. r ''ocean_region'' = Str x) (trows tb)))),
                 Str x)])"
  using assms
  by (simp add: float_statistics_query_def group_keys_map_filter_eq [of "\<lambda>r. r ''ocean_region''"]
      filter_filter_same Let_def del: filter_filter)

text \<open>
  C7. On a store whose float table has the columns \<open>status\<close> and \<open>ocean_region\<close>:
  when a region is requested, \<open>get_float_statistics\<close> returns one dict with the three keys
  \<open>total_floats\<close>, \<open>active_floats\<close>, \<open>inactive_floats\<close>, holding the number of rows of that
  region, and how many of them are active and inactive; the three are zero when no row
  is of that region. When no region is requested (None, or the empty string, which the
  code treats alike), it returns a dict with the one key \<open>regions\<close>, holding a list with
  one entry per distinct stored region, each with the region and its three counts. The
  entries are those of \<open>group_keys\<close>, which lists every stored region once (the last two
  conjuncts), in the engine's order; the claim says nothing of the order.
\<close>

theorem get_float_statistics_shape:
  assumes "working c ''argo_floats'' = Some tb"
    and "''status'' \<in> set (tcols tb)" and "''ocean_region'' \<in> set (tcols tb)"
  shows "(given region \<longrightarrow>
            get_float_statistics c region =
              Inr (PDict
                [(''total_floats'',
                    PInt (int (length (filter (\<lambda>r. r ''ocean_region'' = Str (the region)) (trows tb))))),
                 (''active_floats'',
                    PInt (int (length (filter (\<lambda>r. r ''status'' = Str ''active'')
                      (filter (\<lambda>r. r ''ocean_region'' = Str (the region)) (trows tb)))))),
                 (''inactive_floats'',
                    PInt (int (length (filter (\<lambda>r. r ''status'' = Str ''inactive'')
                      (filter (\<lambda>r. r ''ocean_region'' = Str (the region)) (trows tb))))))]))
       \<and> (given region \<and> filter (\<lambda>r. r ''ocean_region'' = Str (the region)) (trows tb) = [] \<longrightarrow>
            get_float_statistics c region =
              Inr (PDict [(''total_floats'', PInt 0), (''active_floats'', PInt 0),
                          (''inactive_floats'', PInt 0)]))
       \<and> (\<not> given region \<longrightarrow>
            get_float_statistics c region =
              Inr (PDict
                [(''regions'',
                  PList (map (\<lambda>g. PDict
                      [(''region'', PCell g),
                       (''total_floats'',
                          PInt (int (length (filter (\<lambda>r. r ''ocean_region'' = g) (trows tb))))),
                       (''active_floats'',
                          PInt (int (length (filter (\<lambda>r. r ''status'' = Str ''active'')
                            (filter (\<lambda>r. r ''ocean_region'' = g) (trows tb)))))),
                       (''inactive_floats'',
                          PInt (int (length (filter (\<lambda>r. r ''status'' = Str ''inactive'')
                            (filter (\<lambda>r. r ''ocean_region'' = g) (trows tb))))))])
                    (group_keys (map (\<lambda>r. r ''ocean_region'') (trows tb)))))])
            \<and> distinct (group_keys (map (\<lambda>r. r ''ocean_region'') (trows tb)))
            \<and> set (group_keys (map (\<lambda>r. r ''ocean_region'') (trows tb)))
                = (\<lambda>r. r ''ocean_region'') ` set (trows tb))"
proof -
  have one: "given region \<Longrightarrow> get_float_statistics c region =
              Inr (PDict
                [(''total_floats'',
                    PInt (int (length (filter (\<lambda>r. r ''ocean_region'' = Str (the region)) (trows tb))))),
                 (''active_floats'',
                    PInt (int (length (filter (\<lambda>r. r ''status'' = Str ''active'')
                      (filter (\<lambda>r. r ''ocean_region'' = Str (the region)) (trows tb)))))),
                 (''inactive_floats'',
                    PInt (int (length (filter (\<lambda>r. r ''status'' = Str ''inactive'')
                      (filter (\<lambda>r. r ''ocean_region'' = Str (the region)) (trows tb))))))])"
  proof -
    assume g: "given region"
    then obtain x where x: "region = Some x" by (cases region) auto
    show ?thesis
      using g by (simp add: get_float_statistics_def x float_statistics_query_where [where d = "working c", OF assms]
          del: filter_filter)
  qed
  have all: "\<not> given region \<Longrightarrow> get_float_statistics c region =
              Inr (PDict
                [(''regions'',
                  PList (map (\<lambda>g. PDict
                      [(''region'', PCell g),
                       (''total_floats'',
                          PInt (int (length (filter (\<lambda>r. r ''ocean_region'' = g) (trows tb))))),
                       (''active_floats'',
                          PInt (int (length (filter (\<lambda>r. r ''status'' = Str ''active'')
                            (filter (\<lambda>r. r ''ocean_region'' = g) (trows tb)))))),
                       (''inactive_floats'',
                          PInt (int (length (filter (\<lambda>r. r ''status'' = Str ''inactive'')
                            (filter (\<lambda>r. r ''ocean_region'' = g) (trows tb))))))])
                    (group_keys (map (\<lambda>r. r ''ocean_region'') (trows tb)))))])"
    using assms
    by (simp add: get_float_statistics_def float_statistics_query_def Let_def comp_def
        del: filter_filter)
  from one all show ?thesis
    by (auto simp add: distinct_group_keys set_group_keys simp del: filter_filter)
qed

theorem get_float_statistics_shape_witness:
  "get_float_statistics ex_stats_conn (Some ''Pacific Ocean'')
     = Inr (PDict [(''total_floats'', PInt 2), (''active_floats'', PInt 1),
                   (''inactive_floats'', PInt 1)])
   \<and> get_float_statistics ex_stats_conn (Some ''Indian Ocean'')
     = Inr (PDict [(''total_floats'', PInt 0), (''active_floats'', PInt 0),
                   (''inactive_floats'', PInt 0)])
   \<and> get_float_statistics ex_stats_conn None
     = Inr (PDict [(''regions'', PList
         [PDict [(''region'', PCell (Str ''Arctic Ocean'')), (''total_floats'', PInt 1),
                 (''active_floats'', PInt 1), (''inactive_floats'', PInt 0)],
          PDict [(''region'', PCell (Str ''Pacific Ocean'')), (''total_floats'', PInt 2),
                 (''active_floats'', PInt 1), (''inactive_floats'', PInt 1)]])])"
proof -
  let ?tb = "the (working ex_stats_conn ''argo_floats'')"
  have tb: "working ex_stats_conn ''argo_floats'' = Some ?tb"
    by (simp add: ex_stats_conn_def)
  have cols: "''status'' \<in> set (tcols ?tb)" "''ocean_region'' \<in> set (tcols ?tb)"
    by (simp_all add: ex_stats_conn_def ex_float_table_def)
  have rows: "trows ?tb =
        [(\<lambda>c. Null)(''float_id'' := Str ''F1'', ''ocean_region'' := Str ''Pacific Ocean'',
                     ''status'' := Str ''active''),
         (\<lambda>c. Null)(''float_id'' := Str ''F2'', ''ocean_region'' := Str ''Pacific Ocean'',
                     ''status'' := Str ''inactive''),
         (\<lambda>c. Null)(''float_id'' := Str ''F3'', ''ocean_region'' := Str ''Arctic Ocean'',
                     ''status'' := Str ''active'')]"
    by (simp add: ex_stats_conn_def)
  from get_float_statistics_shape [OF tb cols, of "Some ''Pacific Ocean''"]
    get_float_statistics_shape [OF tb cols, of "Some ''Indian Ocean''"]
    get_float_statistics_shape [OF tb cols, of None]
  show ?thesis by (simp add: rows group_keys_def)
qed

section \<open>Properties of the validator\<close>

lemma dropna_Inr:
  assumes "dropna df cols = Inr out"
  shows "set cols \<subseteq> set (df_columns df)"
    and "df_columns out = df_columns df"
    and "df_rows out = filter (\<lambda>r. list_all (\<lambda>c. \<not> isna (r c)) cols) (df_rows df)"
  using assms
  by (auto simp add: dropna_def filter_empty_conv split: list.splits)

lemma fle_bounds:
  "fge v (Finite lo) \<Longrightarrow> fle v (Finite hi) \<Longrightarrow> \<exists>x. v = Finite x \<and> lo \<le> x \<and> x \<le> hi"
  by (cases v) (simp_all add: fge_def)

lemma select_between_Inr:
  assumes "select_between df col lo hi = Inr out"
  shows "df_columns out = df_columns df"
    and "set (df_rows out) \<subseteq> set (df_rows df)"
    and "\<And>r. r \<in> set (df_rows out) \<Longrightarrow> \<exists>x. r col = Num (Finite x) \<and> lo \<le> x \<and> x \<le> hi"
proof -
  from assms have out: "out = df\<lparr>df_rows :=
        filter (\<lambda>r. case cell_float (r col) of
                       None \<Rightarrow> False
                     | Some v \<Rightarrow> fge v (Finite lo) \<and> fle v (Finite hi)) (df_rows df)\<rparr>"
    by (simp add: select_between_def split: if_splits)
  show "df_columns out = df_columns df" by (simp add: out)
  show "set (df_rows out) \<subseteq> set (df_rows df)" by (auto simp add: out)
  fix r assume "r \<in> set (df_rows out)"
  then obtain v where v: "cell_float (r col) = Some v" "fge v (Finite lo)" "fle v (Finite hi)"
    by (auto simp add: out split: option.splits)
  from fle_bounds [OF v(2,3)] obtain x where x: "v = Finite x" "lo \<le> x" "x \<le> hi" by blast
  from v(1) x(1) have "r col = Num (Finite x)" by (cases "r col") auto
  with x show "\<exists>x. r col = Num (Finite x) \<and> lo \<le> x \<and> x \<le> hi" by blast
qed

lemma drop_missing_floats:
  assumes "drop_missing df ''floats'' = Inr out" and "r \<in> set (df_rows out)"
  shows "\<not> isna (r ''float_id'')"
    and "\<exists>x. r ''latitude'' = Num (Finite x) \<and> - 90 \<le> x \<and> x \<le> 90"
    and "\<exists>y. r ''longitude'' = Num (Finite y) \<and> - 180 \<le> y \<and> y \<le> 180"
proof -
  from assms(1) obtain df1 df2 where
    d1: "dropna df [''float_id'', ''latitude'', ''longitude''] = Inr df1" and
    d2: "select_between df1 ''latitude'' (- 90) 90 = Inr df2" and
    d3: "select_between df2 ''longitude'' (- 180) 180 = Inr out"
    by (auto simp add: drop_missing_def split: sum.splits)
  from select_between_Inr(2) [OF d3] assms(2) have r2: "r \<in> set (df_rows df2)" by auto
  with select_between_Inr(2) [OF d2] have r1: "r \<in> set (df_rows df1)" by auto
  from r1 show "\<not> isna (r ''float_id'')" by (simp add: dropna_Inr(3) [OF d1])
  from select_between_Inr(3) [OF d2 r2]
  show "\<exists>x. r ''latitude'' = Num (Finite x) \<and> - 90 \<le> x \<and> x \<le> 90" .
  from select_between_Inr(3) [OF d3 assms(2)]
  show "\<exists>y. r ''longitude'' = Num (Finite y) \<and> - 180 \<le> y \<and> y \<le> 180" .
qed

lemma drop_missing_rows:
  assumes "drop_missing df data_type = Inr out"
  shows "df_columns out = df_columns df" and "set (df_rows out) \<subseteq> set (df_rows df)"
proof -
  have "df_columns out = df_columns df \<and> set (df_rows out) \<subseteq> set (df_rows df)"
  proof (cases "data_type = ''floats''")
    case True
    with assms obtain df1 df2 where
      d1: "dropna df [''float_id'', ''latitude'', ''longitude''] = Inr df1" and
      d2: "select_between df1 ''latitude'' (- 90) 90 = Inr df2" and
      d3: "select_between df2 ''longitude'' (- 180) 180 = Inr out"
      by (auto simp add: drop_missing_def split: sum.splits)
    from dropna_Inr(3) [OF d1] have "set (df_rows df1) \<subseteq> set (df_rows df)" by auto
    with select_between_Inr(1,2) [OF d2] select_between_Inr(1,2) [OF d3] dropna_Inr(2) [OF d1]
    show ?thesis by auto
  next
    case False
    show ?thesis
    proof (cases "data_type \<in> set [''temperature'', ''salinity'', ''oxygen'']")
      case True
      with False assms have d: "dropna df [''float_id'', ''measurement_date''] = Inr out"
        by (simp add: drop_missing_def)
      from dropna_Inr(2,3) [OF d] show ?thesis by auto
    next
      case False2: False
      with False assms show ?thesis by (simp add: drop_missing_def)
    qed
  qed
  then show "df_columns out = df_columns df" and "set (df_rows out) \<subseteq> set (df_rows df)"
    by simp_all
qed

lemma drop_missing_measurements:
  assumes "drop_missing df data_type = Inr out"
    and "data_type \<in> {''temperature'', ''salinity'', ''oxygen''}"
  shows "''measurement_date'' \<in> set (df_columns df)"
    and "\<And>r. r \<in> set (df_rows out) \<Longrightarrow> \<not> isna (r ''float_id'')"
proof -
  from assms have d: "dropna df [''float_id'', ''measurement_date''] = Inr out"
    by (auto simp add: drop_missing_def)
  from dropna_Inr(1) [OF d] show "''measurement_date'' \<in> set (df_columns df)" by simp
  fix r assume "r \<in> set (df_rows out)"
  then show "\<not> isna (r ''float_id'')" by (simp add: dropna_Inr(3) [OF d])
qed

lemma to_datetime_cases: "to_datetime parse col c = Null \<or> (\<exists>t. to_datetime parse col c = Ts t)"
  by (simp add: to_datetime_def split: option.splits)

lemma isna_to_datetime: "isna (to_datetime parse col c) = (to_datetime parse col c = Null)"
  using to_datetime_cases [of parse col c] by auto

lemma convert_dates_rows:
  "df_rows (convert_dates parse df) =
     map (\<lambda>r. r(''measurement_date'' :=
                 to_datetime parse (map (\<lambda>r. r ''measurement_date'') (df_rows df)) (r ''measurement_date'')))
       (filter (\<lambda>r. to_datetime parse (map (\<lambda>r. r ''measurement_date'') (df_rows df))
                       (r ''measurement_date'') \<noteq> Null) (df_rows df))"
  by (simp add: convert_dates_def Let_def filter_map comp_def isna_to_datetime)

lemma convert_dates_columns: "df_columns (convert_dates parse df) = df_columns df"
  by (simp add: convert_dates_def Let_def)

lemma convert_dates_row:
  assumes "r \<in> set (df_rows (convert_dates parse df))"
  shows "\<exists>r0 t. r0 \<in> set (df_rows df) \<and> r = r0(''measurement_date'' := Ts t)"
proof -
  from assms obtain r0 where r0: "r0 \<in> set (df_rows df)"
    "to_datetime parse (map (\<lambda>r. r ''measurement_date'') (df_rows df)) (r0 ''measurement_date'') \<noteq> Null"
    "r = r0(''measurement_date'' :=
        to_datetime parse (map (\<lambda>r. r ''measurement_date'') (df_rows df)) (r0 ''measurement_date''))"
    by (auto simp add: convert_dates_rows)
  with to_datetime_cases [of parse "map (\<lambda>r. r ''measurement_date'') (df_rows df)" "r0 ''measurement_date''"]
  obtain t where "r = r0(''measurement_date'' := Ts t)" by auto
  with r0(1) show ?thesis by blast
qed

text \<open>
  C1, as the code has it. For every batch on which \<open>clean_data\<close> returns: for kind
  \<open>floats\<close>, every output row has a \<open>float_id\<close> that is not missing, a latitude that is a
  number in [-90, 90] and a longitude that is a number in [-180, 180]; for the kinds
  temperature, salinity and oxygen, the batch has a \<open>measurement_date\<close> column and every
  output row has a \<open>float_id\<close> and a \<open>measurement_date\<close> that are not missing; and for any
  kind, when the batch has a \<open>measurement_date\<close> column, the output rows are exactly the
  rows that pass the rules of the kind and whose date parses, in their order, each with
  its date replaced by the timestamp, so that a row whose date does not parse is dropped
  and every surviving row carries a timestamp. When the batch has no \<open>measurement_date\<close>
  column, the output is the batch with the rows that pass the rules of the kind, and
  these rows carry no date. The columns of the batch are unchanged.
\<close>

theorem clean_data_postcondition:
  assumes "clean_data parse df data_type = Inr out"
  shows "(data_type = ''floats'' \<longrightarrow>
           (\<forall>r\<in>set (df_rows out).
              \<not> isna (r ''float_id'')
              \<and> (\<exists>x. r ''latitude'' = Num (Finite x) \<and> - 90 \<le> x \<and> x \<le> 90)
              \<and> (\<exists>y. r ''longitude'' = Num (Finite y) \<and> - 180 \<le> y \<and> y \<le> 180)))
       \<and> (data_type \<in> {''temperature'', ''salinity'', ''oxygen''} \<longrightarrow>
           ''measurement_date'' \<in> set (df_columns df)
           \<and> (\<forall>r\<in>set (df_rows out). \<not> isna (r ''float_id'') \<and> \<not> isna (r ''measurement_date'')))
       \<and> (''measurement_date'' \<in> set (df_columns df) \<longrightarrow>
           (\<exists>kept. drop_missing df data_type = Inr kept
              \<and> set (df_rows kept) \<subseteq> set (df_rows df)
              \<and> df_rows out =
                  map (\<lambda>r. r(''measurement_date'' :=
                         to_datetime parse (map (\<lambda>r. r ''measurement_date'') (df_rows kept))
                           (r ''measurement_date'')))
                    (filter (\<lambda>r. to_datetime parse (map (\<lambda>r. r ''measurement_date'') (df_rows kept))
                                   (r ''measurement_date'') \<noteq> Null) (df_rows kept)))
           \<and> (\<forall>r\<in>set (df_rows out). \<exists>t. r ''measurement_date'' = Ts t))
       \<and> (''measurement_date'' \<notin> set (df_columns df) \<longrightarrow> drop_missing df data_type = Inr out)
       \<and> df_columns out = df_columns df"
proof -
  from assms obtain kept where kept: "drop_missing df data_type = Inr kept"
    and out: "out = (if ''measurement_date'' \<in> set (df_columns kept)
                     then convert_dates parse kept else kept)"
    by (auto simp add: clean_data_def split: sum.splits if_splits)
  note cols = drop_missing_rows(1) [OF kept]
  note sub = drop_missing_rows(2) [OF kept]
  have from_kept: "\<exists>r0. r0 \<in> set (df_rows kept) \<and> r ''float_id'' = r0 ''float_id''
      \<and> r ''latitude'' = r0 ''latitude'' \<and> r ''longitude'' = r0 ''longitude''"
    if "r \<in> set (df_rows out)" for r
  proof (cases "''measurement_date'' \<in> set (df_columns kept)")
    case True
    with that out have "r \<in> set (df_rows (convert_dates parse kept))" by simp
    from convert_dates_row [OF this] show ?thesis by auto
  next
    case False
    with that out show ?thesis by auto
  qed
  have floats: "\<not> isna (r ''float_id'')
              \<and> (\<exists>x. r ''latitude'' = Num (Finite x) \<and> - 90 \<le> x \<and> x \<le> 90)
              \<and> (\<exists>y. r ''longitude'' = Num (Finite y) \<and> - 180 \<le> y \<and> y \<le> 180)"
    if "data_type = ''floats''" "r \<in> set (df_rows out)" for r
  proof -
    from from_kept [OF that(2)] obtain r0 where r0: "r0 \<in> set (df_rows kept)"
      "r ''float_id'' = r0 ''float_id''" "r ''latitude'' = r0 ''latitude''"
      "r ''longitude'' = r0 ''longitude''" by blast
    from kept that(1) have k: "drop_missing df ''floats'' = Inr kept" by simp
    from drop_missing_floats [OF k r0(1)] r0(2-4) show ?thesis by simp
  qed
  have dates: "\<exists>t. r ''measurement_date'' = Ts t"
    if "''measurement_date'' \<in> set (df_columns df)" "r \<in> set (df_rows out)" for r
  proof -
    from that out cols have "r \<in> set (df_rows (convert_dates parse kept))" by simp
    from convert_dates_row [OF this] show ?thesis by auto
  qed
  have meas: "''measurement_date'' \<in> set (df_columns df)
           \<and> (\<forall>r\<in>set (df_rows out). \<not> isna (r ''float_id'') \<and> \<not> isna (r ''measurement_date''))"
    if "data_type \<in> {''temperature'', ''salinity'', ''oxygen''}"
  proof -
    note m = drop_missing_measurements [OF kept that]
    have "\<not> isna (r ''float_id'') \<and> \<not> isna (r ''measurement_date'')"
      if r: "r \<in> set (df_rows out)" for r
    proof -
      from from_kept [OF r] m(2) have "\<not> isna (r ''float_id'')" by auto
      moreover from dates [OF m(1) r] have "\<not> isna (r ''measurement_date'')" by auto
      ultimately show ?thesis by simp
    qed
    with m(1) show ?thesis by blast
  qed
  have exact: "\<exists>kept. drop_missing df data_type = Inr kept
              \<and> set (df_rows kept) \<subseteq> set (df_rows df)
              \<and> df_rows out =
                  map (\<lambda>r. r(''measurement_date'' :=
                         to_datetime parse (map (\<lambda>r. r ''measurement_date'') (df_rows kept))
                           (r ''measurement_date'')))
                    (filter (\<lambda>r. to_datetime parse (map (\<lambda>r. r ''measurement_date'') (df_rows kept))
                                   (r ''measurement_date'') \<noteq> Null) (df_rows kept))"
    if "''measurement_date'' \<in> set (df_columns df)"
    using that kept sub out cols by (auto simp add: convert_dates_rows)
  have columns: "df_columns out = df_columns df"
    using out cols by (simp add: convert_dates_columns)
  have undated: "drop_missing df data_type = Inr out"
    if "''measurement_date'' \<notin> set (df_columns df)"
    using that kept out cols by simp
  have c1: "data_type = ''floats'' \<longrightarrow>
           (\<forall>r\<in>set (df_rows out).
              \<not> isna (r ''float_id'')
              \<and> (\<exists>x. r ''latitude'' = Num (Finite x) \<and> - 90 \<le> x \<and> x \<le> 90)
              \<and> (\<exists>y. r ''longitude'' = Num (Finite y) \<and> - 180 \<le> y \<and> y \<le> 180))"
    using floats by blast
  have c2: "data_type \<in> {''temperature'', ''salinity'', ''oxygen''} \<longrightarrow>
           ''measurement_date'' \<in> set (df_columns df)
           \<and> (\<forall>r\<in>set (df_rows out). \<not> isna (r ''float_id'') \<and> \<not> isna (r ''measurement_date''))"
    using meas by blast
  have c3: "''measurement_date'' \<in> set (df_columns df) \<longrightarrow>
           (\<exists>kept. drop_missing df data_type = Inr kept
              \<and> set (df_rows kept) \<subseteq> set (df_rows df)
              \<and> df_rows out =
                  map (\<lambda>r. r(''measurement_date'' :=
                         to_datetime parse (map (\<lambda>r. r ''measurement_date'') (df_rows kept))
                           (r ''measurement_date'')))
                    (filter (\<lambda>r. to_datetime parse (map (\<lambda>r. r ''measurement_date'') (df_rows kept))
                                   (r ''measurement_date'') \<noteq> Null) (df_rows kept)))
           \<and> (\<forall>r\<in>set (df_rows out). \<exists>t. r ''measurement_date'' = Ts t)"
  proof
    assume m: "''measurement_date'' \<in> set (df_columns df)"
    from exact [OF m] dates [OF m]
    show "(\<exists>kept. drop_missing df data_type = Inr kept
              \<and> set (df_rows kept) \<subseteq> set (df_rows df)
              \<and> df_rows out =
                  map (\<lambda>r. r(''measurement_date'' :=
                         to_datetime parse (map (\<lambda>r. r ''measurement_date'') (df_rows kept))
                           (r ''measurement_date'')))
                    (filter (\<lambda>r. to_datetime parse (map (\<lambda>r. r ''measurement_date'') (df_rows kept))
                                   (r ''measurement_date'') \<noteq> Null) (df_rows kept)))
           \<and> (\<forall>r\<in>set (df_rows out). \<exists>t. r ''measurement_date'' = Ts t)"
      by (intro conjI ballI) assumption+
  qed
  have c4: "''measurement_date'' \<notin> set (df_columns df) \<longrightarrow> drop_missing df data_type = Inr out"
    using undated by (rule impI)
  from c1 c2 c3 c4 columns show ?thesis by (intro conjI) assumption+
qed

theorem clean_data_postcondition_witness:
  "clean_data ex_parse ex_float_chunk ''floats''
     = Inr \<lparr>df_columns = [''float_id'', ''latitude'', ''longitude'', ''measurement_date''],
            df_rows = [(\<lambda>c. Null)(''float_id'' := Str ''F1'', ''latitude'' := Num (Finite 45),
                            ''longitude'' := Num (Finite (- 60)),
                            ''measurement_date'' := Ts 0),
                       (\<lambda>c. Null)(''float_id'' := Str ''F1'', ''latitude'' := Num (Finite 10),
                            ''longitude'' := Num (Finite 170),
                            ''measurement_date'' := Ts 0)]\<rparr>
   \<and> length (df_rows ex_float_chunk) = 3"
proof -
  let ?out = "\<lparr>df_columns = [''float_id'', ''latitude'', ''longitude'', ''measurement_date''],
            df_rows = [(\<lambda>c. Null)(''float_id'' := Str ''F1'', ''latitude'' := Num (Finite 45),
                            ''longitude'' := Num (Finite (- 60)),
                            ''measurement_date'' := Ts 0),
                       (\<lambda>c. Null)(''float_id'' := Str ''F1'', ''latitude'' := Num (Finite 10),
                            ''longitude'' := Num (Finite 170),
                            ''measurement_date'' := Ts 0)]\<rparr>"
  have cleaned: "clean_data ex_parse ex_float_chunk ''floats'' = Inr ?out"
    by (simp add: clean_data_def drop_missing_def dropna_def select_between_def fge_def
        convert_dates_def to_datetime_def ex_parse_def ex_float_chunk_def)
  have rows: "length (df_rows ex_float_chunk) = 3"
    by (simp add: ex_float_chunk_def)
  from clean_data_postcondition [OF cleaned] cleaned rows show ?thesis by simp
qed

text \<open>
  The claim as the specification words it (every surviving row has its
  \<open>measurement_date\<close> as a timestamp, for any kind) fails on a float batch that has no
  \<open>measurement_date\<close> column: the conversion is guarded by the presence of the column,
  the row survives, and the insert step reads None for its date.
\<close>

theorem clean_data_undated_counterexample:
  "clean_data ex_parse ex_undated_chunk ''floats'' = Inr ex_undated_chunk
   \<and> length (df_rows ex_undated_chunk) = 1
   \<and> ''measurement_date'' \<notin> set (df_columns ex_undated_chunk)
   \<and> row_get ex_undated_chunk (hd (df_rows ex_undated_chunk)) ''measurement_date'' Null = Null"
  by (simp add: clean_data_def drop_missing_def dropna_def select_between_def fge_def
      ex_undated_chunk_def row_get_def)

section \<open>Importing the same file twice\<close>

lemma new_row_trows [simp]: "new_row orr (tb\<lparr>trows := X\<rparr>) cols vals = new_row orr tb cols vals"
  by (auto simp add: new_row_def Let_def fun_eq_iff split: option.splits)

lemma conflicts_trows [simp]: "conflicts (tb\<lparr>trows := X\<rparr>) = conflicts tb"
  by (simp add: conflicts_def fun_eq_iff)
















lemma unkeyed_Nil [simp]: "unkeyed k [] R = R"
  by (simp add: unkeyed_def)

lemma unkeyed_self [simp]: "unkeyed k S S = []"
  by (simp add: unkeyed_def)












end
